theory Spec2Isabelle
  imports Main "HOL-Library.Multiset" "HOL-Library.Stream"
begin

section \<open>Errors and outcomes of Go calls\<close>

text \<open>
  A Go \<^verbatim>\<open>error\<close> value. \<^verbatim>\<open>ErrEndOfStream\<close> is the sentinel of package execution;
  \<^verbatim>\<open>New msg\<close> is an error that carries a rendered message and wraps nothing
  (\<^verbatim>\<open>fmt.Errorf\<close> without \<^verbatim>\<open>%w\<close>, \<^verbatim>\<open>errors.New\<close>); \<^verbatim>\<open>Wrap msg e\<close> is
  \<^verbatim>\<open>errors.Wrap(e, msg)\<close> or \<^verbatim>\<open>fmt.Errorf(msg + ": %w", e)\<close>. The nil error is
  \<^verbatim>\<open>None\<close> of \<^typ>\<open>'a option\<close>.
\<close>

datatype error =
    ErrEndOfStream
  | New string
  | Wrap string error
  | Errorf_v string error

text \<open>
  \<^verbatim>\<open>Errorf_v msg e\<close> is \<^verbatim>\<open>fmt.Errorf(msg + ": %v", e)\<close>: its message ends with the
  text of \<^verbatim>\<open>e\<close>, which it does not wrap.
\<close>

text \<open>
  A call either returns or panics. The argument of \<^verbatim>\<open>panic\<close> is an \<^verbatim>\<open>interface{}\<close>:
  \<^verbatim>\<open>None\<close> is the nil interface value, \<^verbatim>\<open>Some s\<close> a value whose \<^verbatim>\<open>%s\<close> rendering
  is \<^verbatim>\<open>s\<close>.
\<close>

datatype 'a outcome =
    Returns 'a
  | Panics "string option"

text \<open>\<^verbatim>\<open>%d\<close> of a non-negative number.\<close>

function string_of_nat :: "nat \<Rightarrow> string" where
  "string_of_nat n =
     (if n < 10 then [''0123456789'' ! n]
      else string_of_nat (n div 10) @ [''0123456789'' ! (n mod 10)])"
  by pat_completeness auto
termination
  by (relation "measure id") auto

declare string_of_nat.simps [simp del]

section \<open>cmd/root.go: the typecheck wrappers\<close>




section \<open>cmd/root.go: the lazily initialised database registry\<close>

text \<open>
  The variables one registry closure captures (root.go, lines 134-137 and 176-178):
  the \<^verbatim>\<open>sync.Once\<close> (whether its \<^verbatim>\<open>Do\<close> has already run), \<^verbatim>\<open>db\<close> and \<^verbatim>\<open>err\<close>.
\<close>

record 'db closure =
  closure_once :: bool
  closure_db :: "'db option"
  closure_err :: "error option"

definition fresh_closure :: "'db closure" where
  "fresh_closure = \<lparr>closure_once = False, closure_db = None, closure_err = None\<rparr>"

text \<open>
  One invocation of the closure stored in \<^verbatim>\<open>databases[name]\<close> (lines 139-147; lines
  180-188 are the same code with another message). \<^verbatim>\<open>pluginExecutor.RunPlugin\<close> is not
  part of the sources: \<^verbatim>\<open>RunPlugin k\<close> is what its call returns when \<^verbatim>\<open>k\<close> calls were
  made before, so that a second attempt could answer differently from the first, and
  the state carries the number of calls made. \<^verbatim>\<open>once.Do\<close> runs its argument only when
  it has not run before. \<^verbatim>\<open>msg\<close> is the rendered prefix of the \<^verbatim>\<open>fmt.Errorf\<close>.
\<close>

definition accessor ::
  "(nat \<Rightarrow> 'db option \<times> error option) \<Rightarrow> string \<Rightarrow> 'db closure \<times> nat \<Rightarrow>
   ('db option \<times> error option) \<times> ('db closure \<times> nat)" where
  "accessor RunPlugin msg st =
     (let (c, calls) = st;
          (c', calls') =
             (if closure_once c then (c, calls)
              else (\<lparr>closure_once = True, closure_db = fst (RunPlugin calls),
                      closure_err = snd (RunPlugin calls)\<rparr>, Suc calls))
      in (case closure_err c' of
            Some e \<Rightarrow> (None, Some (Wrap msg e))
          | None \<Rightarrow> (closure_db c', None),
          (c', calls')))"

text \<open>\<^verbatim>\<open>n\<close> invocations one after the other: their results, and the state they leave.\<close>

fun invocations ::
  "(nat \<Rightarrow> 'db option \<times> error option) \<Rightarrow> string \<Rightarrow> nat \<Rightarrow> 'db closure \<times> nat \<Rightarrow>
   ('db option \<times> error option) list \<times> ('db closure \<times> nat)" where
  "invocations RunPlugin msg 0 st = ([], st)"
| "invocations RunPlugin msg (Suc n) st =
     (let (r, st') = accessor RunPlugin msg st;
          (rs, st'') = invocations RunPlugin msg n st'
      in (r # rs, st''))"

section \<open>package physical: plans and expressions\<close>

text \<open>
  \<^verbatim>\<open>octosql.Type\<close> and \<^verbatim>\<open>octosql.Value\<close> are not part of the sources. Of the types
  only \<^verbatim>\<open>octosql.Boolean\<close>, \<^verbatim>\<open>octosql.Int\<close> and the zero value are named by the code
  below, of the values only \<^verbatim>\<open>octosql.NewInt\<close>; every other type or value is kept by a
  tag.
\<close>

datatype octosql_Type = octosql_ZeroType | octosql_Boolean | octosql_Int | octosql_OtherType string

datatype octosql_Value = NewInt int | NewOtherValue string

datatype SchemaField = SchemaField string octosql_Type

record Schema =
  Fields :: "SchemaField list"
  TimeField :: int
  NoRetractions :: bool

text \<open>An entry of \<^verbatim>\<open>GroupBy.Aggregates\<close>; the code reads its \<^verbatim>\<open>Name\<close> only.\<close>

datatype physical_Aggregate = physical_Aggregate string

text \<open>
  \<^verbatim>\<open>physical.Node\<close> and \<^verbatim>\<open>physical.Expression\<close> are structs with a type tag and one
  payload pointer per tag. Here each tag is a constructor that holds the \<^verbatim>\<open>Schema\<close>
  (the \<^verbatim>\<open>Type\<close>, for an expression) and the fields of its payload which the code
  reads, so a tag always comes with its payload. A table valued function's
  \<^verbatim>\<open>Arguments\<close> is a Go map from argument name to argument: it is kept as the list of
  its entries, listed in some fixed order that the program cannot observe.
  \<^verbatim>\<open>NodeTypeLimit\<close> is the tag root.go builds; \<^verbatim>\<open>TableValuedFunctionArgumentTypeOther\<close>
  and \<^verbatim>\<open>ExpressionTypeOther\<close> stand for any tag value that the switches below do not
  list.
\<close>

datatype Node =
    NodeTypeDatasource Schema string "Expression list"
  | NodeTypeDistinct Schema Node
  | NodeTypeFilter Schema Node Expression
  | NodeTypeGroupBy Schema Node "Expression list" "physical_Aggregate list" "Expression list"
  | NodeTypeStreamJoin Schema Node Node "Expression list" "Expression list"
  | NodeTypeLookupJoin Schema Node Node
  | NodeTypeMap Schema Node "Expression list"
  | NodeTypeOrderBy Schema Node "Expression list" "int list"
  | NodeTypeLimit Schema Node Expression
  | NodeTypeRequalifier Schema Node string
  | NodeTypeTableValuedFunction Schema string "(string \<times> TableValuedFunctionArgument) list"
  | NodeTypeUnnest Schema Node string
and TableValuedFunctionArgument =
    TableValuedFunctionArgumentTypeExpression Expression
  | TableValuedFunctionArgumentTypeTable Node
  | TableValuedFunctionArgumentTypeDescriptor string
  | TableValuedFunctionArgumentTypeOther nat
and Expression =
    ExpressionTypeVariable octosql_Type string bool
  | ExpressionTypeConstant octosql_Type octosql_Value
  | ExpressionTypeFunctionCall octosql_Type string "Expression list"
  | ExpressionTypeAnd octosql_Type "Expression list"
  | ExpressionTypeOr octosql_Type "Expression list"
  | ExpressionTypeQueryExpression octosql_Type Node
  | ExpressionTypeCoalesce octosql_Type "Expression list"
  | ExpressionTypeTuple octosql_Type "Expression list"
  | ExpressionTypeTypeAssertion octosql_Type octosql_Type Expression
  | ExpressionTypeOther octosql_Type nat

text \<open>\<^verbatim>\<open>node.Schema\<close>.\<close>

fun Schema_of :: "Node \<Rightarrow> Schema" where
  "Schema_of (NodeTypeDatasource schema name predicates) = schema"
| "Schema_of (NodeTypeDistinct schema source) = schema"
| "Schema_of (NodeTypeFilter schema source predicate) = schema"
| "Schema_of (NodeTypeGroupBy schema source key aggregates aggregateExpressions) = schema"
| "Schema_of (NodeTypeStreamJoin schema left right leftKey rightKey) = schema"
| "Schema_of (NodeTypeLookupJoin schema source joined) = schema"
| "Schema_of (NodeTypeMap schema source expressions) = schema"
| "Schema_of (NodeTypeOrderBy schema source key directionMultipliers) = schema"
| "Schema_of (NodeTypeLimit schema source limit) = schema"
| "Schema_of (NodeTypeRequalifier schema source qualifier) = schema"
| "Schema_of (NodeTypeTableValuedFunction schema name arguments) = schema"
| "Schema_of (NodeTypeUnnest schema source field) = schema"

section \<open>cmd/root.go: from the typechecked plan to the output sink\<close>

text \<open>
  The command line flags \<^verbatim>\<open>describe\<close>, \<^verbatim>\<open>explain\<close>, \<^verbatim>\<open>optimize\<close> and \<^verbatim>\<open>output\<close> (here \<^verbatim>\<open>output_flag\<close>)
  (root.go, lines 480-483), and the fields of the parser's \<^verbatim>\<open>outputOptions\<close> that the
  code reads after typechecking.
\<close>

record flags =
  describe :: bool
  explain :: int
  optimize :: bool
  output_flag :: string

record 'd outputOptions =
  Limit :: int
  OrderByDirections :: "'d list"

text \<open>
  What \<^verbatim>\<open>RunE\<close> builds: the execution plan it hands to the sink, the formatter and the
  sink. \<^verbatim>\<open>'x\<close> and \<^verbatim>\<open>'xe\<close> are the materialised plans and expressions of package
  execution, \<^verbatim>\<open>CmdDescribeNode\<close> is the \<^verbatim>\<open>DescribeNode\<close> struct of package cmd. The
  constructors of \<^verbatim>\<open>Sink\<close> keep the arguments of the three \<^verbatim>\<open>NewOutputPrinter\<close> calls
  in their order.
\<close>

datatype ('x, 'xe) ExecutionNode =
    Materialized 'x
  | CmdDescribeNode Schema
  | NewBatchOrderBy "('x, 'xe) ExecutionNode" "'xe list" "int list"

datatype Format = NewTableFormatter | NewCSVFormatter | NewJSONFormatter | NewNativeFormat Schema

datatype ('x, 'xe) Sink =
    batch_NewOutputPrinter "('x, 'xe) ExecutionNode" "'xe list" "int list" int Schema Format bool
  | eager_NewOutputPrinter "('x, 'xe) ExecutionNode" Schema Format
  | stream_NewOutputPrinter "('x, 'xe) ExecutionNode" Format

text \<open>
  The calls that leave the sources: the optimizer, materialisation of a plan and of an
  expression (under the plan's schema), \<^verbatim>\<open>logical.DirectionsToMultipliers\<close>, the
  constant \<^verbatim>\<open>DescribeNodeSchema\<close>, the four steps of rendering an explain graph, and
  the sink's \<^verbatim>\<open>Run\<close>.
\<close>

record ('x, 'xe, 'd) collaborators =
  Optimize :: "Node \<Rightarrow> Node"
  Materialize :: "Node \<Rightarrow> error + 'x"
  Materialize_expr :: "Schema \<Rightarrow> Expression \<Rightarrow> error + 'xe"
  DirectionsToMultipliers :: "'d list \<Rightarrow> int list"
  DescribeNodeSchema :: Schema
  os_CreateTemp :: "error option"
  cmd_Run :: "error option"
  file_Close :: "error option"
  open_Start :: "error option"
  sink_Run :: "('x, 'xe) Sink \<Rightarrow> error option"

text \<open>
  Lines 265-293. With a schema that has \<^verbatim>\<open>NoRetractions\<close>, an ORDER BY becomes an
  \<^verbatim>\<open>OrderBy\<close> node and the list of order-by expressions is emptied; then, still with
  \<^verbatim>\<open>NoRetractions\<close> and no order-by expression left, the plan is put under a
  \<^verbatim>\<open>Limit\<close> node that holds \<^verbatim>\<open>outputOptions.Limit\<close>, and \<^verbatim>\<open>outputOptions.Limit\<close> is
  set to 0.
\<close>

definition push_OrderBy_Limit ::
  "('d list \<Rightarrow> int list) \<Rightarrow> Node \<Rightarrow> Expression list \<Rightarrow> 'd outputOptions \<Rightarrow>
   Node \<times> Expression list \<times> 'd outputOptions" where
  "push_OrderBy_Limit toMultipliers physicalPlan physicalOrderByExpressions opts =
     (let (physicalPlan, physicalOrderByExpressions) =
            (if NoRetractions (Schema_of physicalPlan) \<and> length physicalOrderByExpressions > 0
             then (NodeTypeOrderBy (Schema_of physicalPlan) physicalPlan physicalOrderByExpressions
                     (toMultipliers (OrderByDirections opts)), [])
             else (physicalPlan, physicalOrderByExpressions))
      in if NoRetractions (Schema_of physicalPlan) \<and> length physicalOrderByExpressions = 0
         then (NodeTypeLimit (Schema_of physicalPlan) physicalPlan
                 (ExpressionTypeConstant octosql_Int (NewInt (Limit opts))),
               physicalOrderByExpressions, opts\<lparr>Limit := 0\<rparr>)
         else (physicalPlan, physicalOrderByExpressions, opts))"

text \<open>The loop of lines 350-356: the first expression that fails to materialise ends it.\<close>

fun materialize_orderBy ::
  "(Expression \<Rightarrow> error + 'xe) \<Rightarrow> nat \<Rightarrow> Expression list \<Rightarrow> error + 'xe list" where
  "materialize_orderBy m i [] = Inr []"
| "materialize_orderBy m i (physicalExpr # rest) =
     (case m physicalExpr of
        Inl err \<Rightarrow>
          Inl (Errorf_v (''couldn't materialize output order by expression with index '' @ string_of_nat i) err)
      | Inr execExpr \<Rightarrow>
          (case materialize_orderBy m (Suc i) rest of
             Inl err \<Rightarrow> Inl err
           | Inr execExprs \<Rightarrow> Inr (execExpr # execExprs)))"

text \<open>Lines 321-338: the four steps of \<^verbatim>\<open>--explain\<close>, each of which can fail.\<close>

definition explain_graph :: "('x, 'xe, 'd) collaborators \<Rightarrow> error option" where
  "explain_graph c =
     (case os_CreateTemp c of Some err \<Rightarrow> Some (Wrap ''couldn't create temporary file'' err) | None \<Rightarrow>
      case cmd_Run c of Some err \<Rightarrow> Some (Wrap ''couldn't render graph'' err) | None \<Rightarrow>
      case file_Close c of Some err \<Rightarrow> Some (Wrap ''couldn't close temporary file'' err) | None \<Rightarrow>
      case open_Start c of Some err \<Rightarrow> Some (Wrap ''couldn't open graph'' err) | None \<Rightarrow> None)"

text \<open>
  Where \<^verbatim>\<open>RunE\<close> stands when it has chosen a sink, or earlier: it returned an error, it
  returned nil after drawing the explain graph, or it holds the sink it is about to
  run.
\<close>

datatype ('x, 'xe) stage =
    Failed error
  | Explained
  | Selected "('x, 'xe) Sink"

text \<open>
  Lines 300-367: what the sink will read. In describe mode the plan is not
  materialised, the names of the plan's schema are mapped back, and the limit and the
  ordering of the output are dropped; otherwise the plan is optimised (when asked),
  explained (when asked, which ends the run) or materialised together with the
  remaining order-by expressions. The result is the plan as it stands afterwards (the
  switch on \<^verbatim>\<open>output\<close> reads its schema), the execution plan, the materialised order-by
  expressions, the output schema and the output options.
\<close>

definition rename_fields :: "(string \<Rightarrow> string) \<Rightarrow> SchemaField list \<Rightarrow> SchemaField list" where
  "rename_fields reverseMapping fs =
     map (\<lambda>f. case f of SchemaField name t \<Rightarrow> SchemaField (reverseMapping name) t) fs"

definition prepare_execution ::
  "('x, 'xe, 'd) collaborators \<Rightarrow> flags \<Rightarrow> (string \<Rightarrow> string) \<Rightarrow>
   Node \<Rightarrow> Expression list \<Rightarrow> 'd outputOptions \<Rightarrow>
   (error option) + (Schema \<times> ('x, 'xe) ExecutionNode \<times> 'xe list \<times> Schema \<times> 'd outputOptions)" where
  "prepare_execution c fl reverseMapping physicalPlan physicalOrderByExpressions opts =
     (if describe fl then
        (let schema = (Schema_of physicalPlan)
                        \<lparr>Fields := rename_fields reverseMapping (Fields (Schema_of physicalPlan))\<rparr>
         in Inr (schema, CmdDescribeNode schema, [], DescribeNodeSchema c,
                 opts\<lparr>Limit := 0, OrderByDirections := []\<rparr>))
      else
        (let physicalPlan = (if optimize fl then Optimize c physicalPlan else physicalPlan)
         in if explain fl \<ge> 1 then Inl (explain_graph c)
            else
              (case Materialize c physicalPlan of
                 Inl err \<Rightarrow> Inl (Some (Wrap ''couldn't materialize physical plan'' err))
               | Inr executionPlan \<Rightarrow>
                   (case materialize_orderBy (Materialize_expr c (Schema_of physicalPlan)) 0
                           physicalOrderByExpressions of
                      Inl err \<Rightarrow> Inl (Some err)
                    | Inr orderByExpressions \<Rightarrow>
                        Inr (Schema_of physicalPlan, Materialized executionPlan, orderByExpressions,
                             \<lparr>Fields = rename_fields reverseMapping (Fields (Schema_of physicalPlan)),
                              TimeField = TimeField (Schema_of physicalPlan),
                              NoRetractions = False\<rparr>,
                             opts)))))"

text \<open>
  The switch on \<^verbatim>\<open>output\<close> (lines 373-461). \<^verbatim>\<open>schema\<close> is \<^verbatim>\<open>physicalPlan.Schema\<close> as
  it stands at the switch.
\<close>

definition select_sink ::
  "('d list \<Rightarrow> int list) \<Rightarrow> string \<Rightarrow> Schema \<Rightarrow> ('x, 'xe) ExecutionNode \<Rightarrow> 'xe list \<Rightarrow>
   Schema \<Rightarrow> 'd outputOptions \<Rightarrow> ('x, 'xe) stage" where
  "select_sink toMultipliers out schema executionPlan orderByExpressions outSchema opts =
     (if out = ''live_table'' then
        Selected (batch_NewOutputPrinter executionPlan orderByExpressions
                    (toMultipliers (OrderByDirections opts)) (Limit opts) outSchema NewTableFormatter True)
      else if out = ''batch_table'' then
        Selected (batch_NewOutputPrinter executionPlan orderByExpressions
                    (toMultipliers (OrderByDirections opts)) (Limit opts) outSchema NewTableFormatter False)
      else if out = ''csv'' then
        (if \<not> NoRetractions schema then
           Selected (batch_NewOutputPrinter executionPlan orderByExpressions
                       (toMultipliers (OrderByDirections opts)) (Limit opts) outSchema NewCSVFormatter False)
         else Selected (eager_NewOutputPrinter executionPlan outSchema NewCSVFormatter))
      else if out = ''json'' then
        (if \<not> NoRetractions schema then
           Selected (batch_NewOutputPrinter executionPlan orderByExpressions
                       (toMultipliers (OrderByDirections opts)) (Limit opts) outSchema NewJSONFormatter False)
         else Selected (eager_NewOutputPrinter executionPlan outSchema NewJSONFormatter))
      else if out = ''stream_native'' then
        (let executionPlan =
               (if length orderByExpressions > 0
                then NewBatchOrderBy executionPlan orderByExpressions
                       (toMultipliers (OrderByDirections opts))
                else executionPlan)
         in if Limit opts > 0 then Failed (New ''LIMIT clause not supported with stream output'')
            else Selected (stream_NewOutputPrinter executionPlan (NewNativeFormat outSchema)))
      else Failed (New (''invalid output format: '' @ [CHR 0x27] @ out @ [CHR 0x27])))"

text \<open>
  \<^verbatim>\<open>RunE\<close> from line 265 up to the sink it selects, given the typechecked plan, the
  typechecked order-by expressions, the output options and the reverse mapping of
  names.
\<close>

definition RunE_stage ::
  "('x, 'xe, 'd) collaborators \<Rightarrow> flags \<Rightarrow> (string \<Rightarrow> string) \<Rightarrow>
   Node \<Rightarrow> Expression list \<Rightarrow> 'd outputOptions \<Rightarrow> ('x, 'xe) stage" where
  "RunE_stage c fl reverseMapping typechecked typecheckedOrderBy parsedOptions =
     (let (physicalPlan, physicalOrderByExpressions, opts) =
            push_OrderBy_Limit (DirectionsToMultipliers c) typechecked typecheckedOrderBy parsedOptions
      in case prepare_execution c fl reverseMapping physicalPlan physicalOrderByExpressions opts of
           Inl (Some err) \<Rightarrow> Failed err
         | Inl None \<Rightarrow> Explained
         | Inr (schema, executionPlan, orderByExpressions, outSchema, opts) \<Rightarrow>
             select_sink (DirectionsToMultipliers c) (output_flag fl) schema executionPlan
               orderByExpressions outSchema opts)"

text \<open>
  What \<^verbatim>\<open>RunE\<close> returns from there (lines 463-472): the sink runs only when one was
  selected.
\<close>

definition RunE ::
  "('x, 'xe, 'd) collaborators \<Rightarrow> flags \<Rightarrow> (string \<Rightarrow> string) \<Rightarrow>
   Node \<Rightarrow> Expression list \<Rightarrow> 'd outputOptions \<Rightarrow> error option" where
  "RunE c fl reverseMapping typechecked typecheckedOrderBy parsedOptions =
     (case RunE_stage c fl reverseMapping typechecked typecheckedOrderBy parsedOptions of
        Failed err \<Rightarrow> Some err
      | Explained \<Rightarrow> None
      | Selected sink \<Rightarrow>
          (case sink_Run c sink of
             Some err \<Rightarrow> Some (Wrap ''couldn't run query'' err)
           | None \<Rightarrow> None))"

text \<open>Which of the three printers a stage holds.\<close>

fun eager_selected :: "('x, 'xe) stage \<Rightarrow> bool" where
  "eager_selected (Selected (eager_NewOutputPrinter executionPlan outSchema format)) = True"
| "eager_selected other = False"

fun batch_selected :: "('x, 'xe) stage \<Rightarrow> bool" where
  "batch_selected (Selected (batch_NewOutputPrinter executionPlan orderBy multipliers limit outSchema format live)) = True"
| "batch_selected other = False"

text \<open>
  Example runs. In the first the plan is a scan of table \<^verbatim>\<open>t\<close> whose schema has
  \<^verbatim>\<open>NoRetractions\<close>, the query has \<^verbatim>\<open>LIMIT 5\<close> and no ORDER BY, the flags are
  \<^verbatim>\<open>--output=stream_native --optimize=false\<close>. Materialisation is the identity here and
  the sink runs without error.
\<close>

definition table_t :: Node where
  "table_t = NodeTypeDatasource \<lparr>Fields = [], TimeField = - 1, NoRetractions = True\<rparr> ''t'' []"

definition stream_native_flags :: flags where
  "stream_native_flags = \<lparr>describe = False, explain = 0, optimize = False, output_flag = ''stream_native''\<rparr>"

definition plain_collaborators :: "(Node, Expression, int) collaborators" where
  "plain_collaborators =
     \<lparr>Optimize = (\<lambda>n. n), Materialize = Inr, Materialize_expr = (\<lambda>schema. Inr),
      DirectionsToMultipliers = (\<lambda>ds. ds),
      DescribeNodeSchema = \<lparr>Fields = [], TimeField = - 1, NoRetractions = True\<rparr>,
      os_CreateTemp = None, cmd_Run = None, file_Close = None, open_Start = None,
      sink_Run = (\<lambda>sink. None)\<rparr>"

text \<open>In the second the table's schema allows retractions.\<close>

definition table_updates :: Node where
  "table_updates = NodeTypeDatasource \<lparr>Fields = [], TimeField = - 1, NoRetractions = False\<rparr> ''updates'' []"

section \<open>package physical: DescribeNode and DescribeExpr\<close>

text \<open>
  Modelled from the spec: package helpers/graph (\<^verbatim>\<open>graph.Node\<close>, \<^verbatim>\<open>NewNode\<close>,
  \<^verbatim>\<open>AddField\<close>, \<^verbatim>\<open>AddChild\<close>) is not part of the sources. The spec has "a labeled
  vertex with named child edges and scalar fields": a vertex is its label, its fields
  and its child edges, each in the order in which they were added.
\<close>

datatype graph_Node = graph_Node string "(string \<times> string) list" "(string \<times> graph_Node) list"

definition NewNode :: "string \<Rightarrow> graph_Node" where
  "NewNode name = graph_Node name [] []"

fun AddField :: "graph_Node \<Rightarrow> string \<Rightarrow> string \<Rightarrow> graph_Node" where
  "AddField (graph_Node name fs cs) k v = graph_Node name (fs @ [(k, v)]) cs"

fun AddChild :: "graph_Node \<Rightarrow> string \<Rightarrow> graph_Node \<Rightarrow> graph_Node" where
  "AddChild (graph_Node name fs cs) label child = graph_Node name fs (cs @ [(label, child)])"

text \<open>A loop that calls \<^verbatim>\<open>out.AddChild(label, child)\<close> for each entry of a list in turn.\<close>

definition AddChildren :: "graph_Node \<Rightarrow> (string \<times> graph_Node) list \<Rightarrow> graph_Node" where
  "AddChildren out cs = foldl (\<lambda>out (label, child). AddChild out label child) out cs"

text \<open>The labels \<^verbatim>\<open>fmt.Sprintf("arg_%d", i)\<close> of a loop \<^verbatim>\<open>for i := range arguments\<close>.\<close>

definition arg_labels :: "'a list \<Rightarrow> (string \<times> 'a) list" where
  "arg_labels xs = map (\<lambda>i. (''arg_'' @ string_of_nat i, xs ! i)) [0..<length xs]"

text \<open>
  Calls made one after the other: the first panic ends the sequence, and what the
  later calls would have done is never looked at.
\<close>

fun seq_outcomes :: "'a outcome list \<Rightarrow> 'a list outcome" where
  "seq_outcomes [] = Returns []"
| "seq_outcomes (Panics p # rs) = Panics p"
| "seq_outcomes (Returns x # rs) =
     (case seq_outcomes rs of Panics p \<Rightarrow> Panics p | Returns xs \<Rightarrow> Returns (x # xs))"

definition and_then :: "'a outcome \<Rightarrow> ('a \<Rightarrow> 'b outcome) \<Rightarrow> 'b outcome" where
  "and_then r f = (case r of Panics p \<Rightarrow> Panics p | Returns x \<Rightarrow> f x)"

text \<open>
  What the functions below take from outside the sources: the \<^verbatim>\<open>String()\<close> methods of
  \<^verbatim>\<open>octosql.Value\<close> and \<^verbatim>\<open>octosql.Type\<close>, and the Go runtime's choice of the order in
  which a \<^verbatim>\<open>range\<close> over a map visits its entries. \<^verbatim>\<open>rangeOrder rt keys\<close> is that
  order for a map whose entries are listed with the keys \<^verbatim>\<open>keys\<close>, as a list of
  positions in the listing; the language fixes only that every entry is visited once
  (\<^verbatim>\<open>visits_each_once\<close>). Two calls of \<^verbatim>\<open>DescribeNode\<close> on the same plan are two
  evaluations, each with the order its run happens to get.
\<close>

record runtime =
  Value_String :: "octosql_Value \<Rightarrow> string"
  Type_String :: "octosql_Type \<Rightarrow> string"
  rangeOrder :: "string list \<Rightarrow> nat list"

definition visits_each_once :: "runtime \<Rightarrow> bool" where
  "visits_each_once rt = (\<forall>keys. mset (rangeOrder rt keys) = mset [0..<length keys])"

text \<open>
  \<^verbatim>\<open>DescribeNode\<close> (part_000, lines 10-129) and \<^verbatim>\<open>DescribeExpr\<close> (lines 131-190);
  \<^verbatim>\<open>DescribeArgument\<close> is the inner switch of lines 101-115. A loop
  \<^verbatim>\<open>for i := range xs\<close> that reads \<^verbatim>\<open>ys[i]\<close> panics with an index out of range at the
  first \<^verbatim>\<open>i\<close> beyond \<^verbatim>\<open>ys\<close>, after the calls for the indices before it.
\<close>

function (sequential)
  DescribeNode :: "runtime \<Rightarrow> Node \<Rightarrow> graph_Node outcome" and
  DescribeArgument :: "runtime \<Rightarrow> TableValuedFunctionArgument \<Rightarrow> graph_Node outcome" and
  DescribeExpr :: "runtime \<Rightarrow> Expression \<Rightarrow> graph_Node outcome"
where
  "DescribeNode rt (NodeTypeDatasource schema name predicates) =
     (if length predicates > 0
      then and_then (DescribeExpr rt (ExpressionTypeAnd octosql_Boolean predicates))
             (\<lambda>p. Returns (AddChild (NewNode name) ''predicate'' p))
      else Returns (NewNode name))"
| "DescribeNode rt (NodeTypeDistinct schema source) =
     and_then (DescribeNode rt source)
       (\<lambda>s. Returns (AddChild (NewNode ''distinct'') ''source'' s))"
| "DescribeNode rt (NodeTypeFilter schema source predicate) =
     and_then (DescribeExpr rt predicate) (\<lambda>p.
     and_then (DescribeNode rt source) (\<lambda>s.
       Returns (AddChild (AddChild (NewNode ''filter'') ''predicate'' p) ''source'' s)))"
| "DescribeNode rt (NodeTypeGroupBy schema source key aggregates aggregateExpressions) =
     and_then (seq_outcomes (take (length aggregates) (map (DescribeExpr rt) aggregateExpressions))) (\<lambda>as.
     if length aggregateExpressions < length aggregates then Panics (Some ''index out of range'')
     else
     and_then (DescribeExpr rt (ExpressionTypeTuple octosql_ZeroType key)) (\<lambda>k.
     and_then (DescribeNode rt source) (\<lambda>s.
       Returns (AddChild (AddChild
         (AddChildren (NewNode ''group by'')
            (zip (map (\<lambda>a. case a of physical_Aggregate name \<Rightarrow> name) aggregates) as))
         ''key'' k) ''source'' s))))"
| "DescribeNode rt (NodeTypeStreamJoin schema left right leftKey rightKey) =
     and_then (DescribeNode rt left) (\<lambda>l.
     and_then (DescribeNode rt right) (\<lambda>r.
     and_then (DescribeExpr rt (ExpressionTypeTuple octosql_ZeroType leftKey)) (\<lambda>lk.
     and_then (DescribeExpr rt (ExpressionTypeTuple octosql_ZeroType rightKey)) (\<lambda>rk.
       Returns (AddChild (AddChild (AddChild (AddChild (NewNode ''join'')
         ''left'' l) ''right'' r) ''left_key'' lk) ''right_key'' rk)))))"
| "DescribeNode rt (NodeTypeLookupJoin schema source joined) =
     and_then (DescribeNode rt source) (\<lambda>s.
     and_then (DescribeNode rt joined) (\<lambda>j.
       Returns (AddChild (AddChild (NewNode ''lookup join'') ''source'' s) ''joined'' j)))"
| "DescribeNode rt (NodeTypeMap schema source expressions) =
     and_then (seq_outcomes (take (length (Fields schema)) (map (DescribeExpr rt) expressions))) (\<lambda>es.
     if length (Fields schema) < length expressions then Panics (Some ''index out of range'')
     else
     and_then (DescribeNode rt source) (\<lambda>s.
       Returns (AddChild
         (AddChildren (NewNode ''map'')
            (zip (map (\<lambda>f. case f of SchemaField name t \<Rightarrow> name) (Fields schema)) es))
         ''source'' s)))"
| "DescribeNode rt (NodeTypeOrderBy schema source key directionMultipliers) =
     and_then (seq_outcomes (take (length directionMultipliers) (map (DescribeExpr rt) key))) (\<lambda>ks.
     if length directionMultipliers < length key then Panics (Some ''index out of range'')
     else
     and_then (DescribeNode rt source) (\<lambda>s.
       Returns (AddChild
         (AddChildren (NewNode ''sort'')
            (zip (map (\<lambda>m. if m = 1 then ''asc'' else ''desc'') directionMultipliers) ks))
         ''source'' s)))"
| "DescribeNode rt (NodeTypeRequalifier schema source qualifier) =
     and_then (DescribeNode rt source) (\<lambda>s.
       Returns (AddChild (AddField (NewNode ''requalifier'') ''new qualifier'' qualifier) ''source'' s))"
| "DescribeNode rt (NodeTypeTableValuedFunction schema name arguments) =
     (let described = map (\<lambda>(name, value). DescribeArgument rt value) arguments;
          visited = rangeOrder rt (map fst arguments)
      in and_then (seq_outcomes (map (\<lambda>i. described ! i) visited)) (\<lambda>cs.
           Returns (AddChildren (NewNode name) (zip (map (\<lambda>i. fst (arguments ! i)) visited) cs))))"
| "DescribeNode rt (NodeTypeUnnest schema source field) =
     and_then (DescribeNode rt source) (\<lambda>s.
       Returns (AddChild (AddField (NewNode ''unnest'') ''field'' field) ''source'' s))"
| "DescribeNode rt (NodeTypeLimit schema source limit) =
     Panics (Some ''unexhaustive node type match'')"
| "DescribeArgument rt (TableValuedFunctionArgumentTypeExpression expression) =
     DescribeExpr rt expression"
| "DescribeArgument rt (TableValuedFunctionArgumentTypeTable table) =
     DescribeNode rt table"
| "DescribeArgument rt (TableValuedFunctionArgumentTypeDescriptor descriptor) =
     Returns (AddField (NewNode ''descriptor'') ''value'' descriptor)"
| "DescribeArgument rt (TableValuedFunctionArgumentTypeOther t) =
     Panics (Some (''unrecognized table valued function argument type: '' @ string_of_nat t))"
| "DescribeExpr rt (ExpressionTypeVariable t name isLevel0) =
     Returns (AddField (AddField (NewNode ''variable'') ''name'' name)
                ''is_level_0'' (if isLevel0 then ''true'' else ''false''))"
| "DescribeExpr rt (ExpressionTypeConstant t v) =
     Returns (AddField (NewNode ''constant'') ''value'' (Value_String rt v))"
| "DescribeExpr rt (ExpressionTypeFunctionCall t name arguments) =
     and_then (seq_outcomes (map (DescribeExpr rt) arguments)) (\<lambda>as.
       Returns (AddChildren (AddField (NewNode ''function'') name []) (arg_labels as)))"
| "DescribeExpr rt (ExpressionTypeAnd t arguments) =
     and_then (seq_outcomes (map (DescribeExpr rt) arguments)) (\<lambda>as.
       Returns (AddChildren (NewNode ''and'') (arg_labels as)))"
| "DescribeExpr rt (ExpressionTypeOr t arguments) =
     and_then (seq_outcomes (map (DescribeExpr rt) arguments)) (\<lambda>as.
       Returns (AddChildren (NewNode ''or'') (arg_labels as)))"
| "DescribeExpr rt (ExpressionTypeQueryExpression t source) =
     and_then (DescribeNode rt source) (\<lambda>s.
       Returns (AddChild (NewNode ''subquery'') ''source'' s))"
| "DescribeExpr rt (ExpressionTypeCoalesce t arguments) =
     and_then (seq_outcomes (map (DescribeExpr rt) arguments)) (\<lambda>as.
       Returns (AddChildren (NewNode ''coalesce'') (arg_labels as)))"
| "DescribeExpr rt (ExpressionTypeTuple t arguments) =
     and_then (seq_outcomes (map (DescribeExpr rt) arguments)) (\<lambda>as.
       Returns (AddChildren (NewNode ''tuple'') (arg_labels as)))"
| "DescribeExpr rt (ExpressionTypeTypeAssertion t targetType expression) =
     and_then (DescribeExpr rt expression) (\<lambda>v.
       Returns (AddChild (AddField (NewNode ''type assertion'') ''type'' (Type_String rt targetType))
                  ''value'' v))"
| "DescribeExpr rt (ExpressionTypeOther t n) =
     Panics (Some ''unexhaustive expression type match'')"
  by pat_completeness auto
termination
  apply (relation "measure (\<lambda>x. case x of
      Inl (rt, n) \<Rightarrow> 2 * size n + 1
    | Inr (Inl (rt, a)) \<Rightarrow> 2 * size a
    | Inr (Inr (rt, e)) \<Rightarrow> 2 * size e)")
  apply (auto dest!: size_list_estimation' [where f = size, OF _ order_refl]
                     size_list_estimation' [where f = "size_prod (\<lambda>x. 0) size", OF _ order_refl])
  done

section \<open>execution/group_by.go\<close>

text \<open>
  A Go \<^verbatim>\<open>interface{}\<close> value as the group-by code meets it: nil, the empty struct
  \<^verbatim>\<open>struct{}{}\<close>, or a scalar.
\<close>

datatype go_interface = GoNil | EmptyStruct | GoInt int | GoString string | GoBool bool

text \<open>
  Modelled from the spec: package octosql and the \<^verbatim>\<open>Record\<close> of package execution are
  not part of the sources. A \<^verbatim>\<open>VariableName\<close> is a name, \<^verbatim>\<open>NewVariableName\<close> makes one
  from a string and \<^verbatim>\<open>String()\<close> gives the string back; a record is "(field names,
  values)", built by \<^verbatim>\<open>NewRecordFromSlice\<close>.
\<close>

datatype VariableName = NewVariableName string

fun VariableName_String :: "VariableName \<Rightarrow> string" where
  "VariableName_String (NewVariableName s) = s"

datatype Record = NewRecordFromSlice "VariableName list" "go_interface list"

text \<open>
  Modelled from the spec: \<^verbatim>\<open>HashMap\<close> and its \<^verbatim>\<open>Iterator\<close> are not part of the
  sources. The spec has "a composite-key hashmap whose equality is element-wise Value
  equality" and groups that come out "in insertion order": the hashmap is the list of
  its entries in the order in which their keys were first set; setting a key that is
  present replaces its value in place. An iterator is the list of the entries it has
  not yet returned, and its \<^verbatim>\<open>Next\<close> answers \<^verbatim>\<open>ok = false\<close> (here \<^verbatim>\<open>None\<close>) when none is
  left.
\<close>

type_synonym HashMap = "(go_interface list \<times> go_interface) list"

type_synonym Iterator = "(go_interface list \<times> go_interface) list"

fun HashMap_Set :: "HashMap \<Rightarrow> go_interface list \<Rightarrow> go_interface \<Rightarrow> HashMap" where
  "HashMap_Set [] k v = [(k, v)]"
| "HashMap_Set ((k', v') # entries) k v =
     (if k' = k then (k, v) # entries else (k', v') # HashMap_Set entries k v)"

definition GetIterator :: "HashMap \<Rightarrow> Iterator" where
  "GetIterator hm = hm"

fun Iterator_Next :: "Iterator \<Rightarrow> (go_interface list \<times> go_interface \<times> Iterator) option" where
  "Iterator_Next [] = None"
| "Iterator_Next ((k, v) # entries) = Some (k, v, entries)"

text \<open>
  The \<^verbatim>\<open>Aggregate\<close> interface (lines 12-16): \<^verbatim>\<open>AddRecord\<close>, \<^verbatim>\<open>GetAggregated\<close> and
  \<^verbatim>\<open>String\<close>, and nothing else. An aggregate is an object with a state of its own:
  \<^verbatim>\<open>AddRecord\<close> may change the state and returns an error or nil, \<^verbatim>\<open>GetAggregated\<close>
  reads it.
\<close>

record 's Aggregate =
  aggregate_state :: 's
  AddRecord :: "'s \<Rightarrow> go_interface list \<Rightarrow> go_interface \<Rightarrow> 's \<times> error option"
  GetAggregated :: "'s \<Rightarrow> go_interface list \<Rightarrow> error + go_interface"
  String :: string


text \<open>
  The calls of \<^verbatim>\<open>Next\<close> that leave the sources: \<^verbatim>\<open>Variables.MergeWith\<close>,
  \<^verbatim>\<open>Record.AsVariables\<close>, \<^verbatim>\<open>Record.Value\<close>, and the error, if any, with which
  \<^verbatim>\<open>HashMap.Set\<close> refuses a key. \<^verbatim>\<open>'vars\<close> is \<^verbatim>\<open>octosql.Variables\<close>.
\<close>

record 'vars externals =
  MergeWith :: "'vars \<Rightarrow> 'vars \<Rightarrow> error + 'vars"
  AsVariables :: "Record \<Rightarrow> 'vars"
  Value :: "Record \<Rightarrow> VariableName \<Rightarrow> go_interface"
  Set_error :: "go_interface list \<Rightarrow> error option"

text \<open>
  \<^verbatim>\<open>GroupByStream\<close> (lines 50-62). The source is a \<^verbatim>\<open>RecordStream\<close>, an interface whose
  implementations are not part of the sources: it is the sequence of the results that
  its successive \<^verbatim>\<open>Next\<close> calls return, each a record pointer and an error, either of
  which may be nil. An \<^verbatim>\<open>Expression\<close> is its \<^verbatim>\<open>ExpressionValue\<close>. The iterator is nil
  (\<^verbatim>\<open>None\<close>) until the source has been read.
\<close>

record ('vars, 's) GroupByStream =
  stream_source :: "(Record option \<times> error option) stream"
  stream_variables :: 'vars
  stream_key :: "('vars \<Rightarrow> error + go_interface) list"
  stream_groups :: HashMap
  stream_fields :: "VariableName list"
  stream_aggregates :: "'s Aggregate list"
  stream_fieldNames :: "VariableName list"
  stream_iterator :: "Iterator option"




text \<open>
  Lines 91-97: the key expressions are evaluated in turn, the first error ends the
  loop.
\<close>

fun evaluate_key ::
  "('vars \<Rightarrow> error + go_interface) list \<Rightarrow> 'vars \<Rightarrow> nat \<Rightarrow> error + go_interface list" where
  "evaluate_key [] variables i = Inr []"
| "evaluate_key (expression # rest) variables i =
     (case expression variables of
        Inl err \<Rightarrow>
          Inl (Wrap (''couldn't evaluate group key expression with index '' @ string_of_nat i) err)
      | Inr v \<Rightarrow>
          (case evaluate_key rest variables (Suc i) of
             Inl err \<Rightarrow> Inl err
           | Inr vs \<Rightarrow> Inr (v # vs)))"

text \<open>
  Lines 108-113, from index \<^verbatim>\<open>i\<close> on: \<^verbatim>\<open>stream.fields[i]\<close> panics when there are fewer
  fields than aggregates; an aggregate that returns an error ends the loop, and the
  aggregates before it keep the record they were given.
\<close>

fun add_record ::
  "(VariableName \<Rightarrow> go_interface) \<Rightarrow> VariableName list \<Rightarrow> go_interface list \<Rightarrow> nat \<Rightarrow>
   's Aggregate list \<Rightarrow> ('s Aggregate list \<times> error option) outcome" where
  "add_record recordValue fields' key i [] = Returns ([], None)"
| "add_record recordValue fields' key i (aggregate # rest) =
     (if length fields' \<le> i then Panics (Some ''index out of range'')
      else
        (case AddRecord aggregate (aggregate_state aggregate) key (recordValue (fields' ! i)) of
           (state, Some err) \<Rightarrow>
             Returns (aggregate\<lparr>aggregate_state := state\<rparr> # rest,
                      Some (Wrap (''couldn't add record value to aggregate with index '' @ string_of_nat i) err))
         | (state, None) \<Rightarrow>
             (case add_record recordValue fields' key (Suc i) rest of
                Panics p \<Rightarrow> Panics p
              | Returns (rest', err) \<Rightarrow> Returns (aggregate\<lparr>aggregate_state := state\<rparr> # rest', err))))"

text \<open>
  How one pass through the body of the \<^verbatim>\<open>for\<close> loop of lines 66-114 ends, when it does
  not go on to the next pass: with the \<^verbatim>\<open>break\<close> of line 81, with a \<^verbatim>\<open>return\<close>, or
  with a panic.
\<close>

datatype ('vars, 's) loop_exit =
    Break "('vars, 's) GroupByStream"
  | Return "Record option \<times> error option" "('vars, 's) GroupByStream"
  | Panic "string option"

text \<open>
  Lines 70-79: the field names. \<^verbatim>\<open>stream.aggregates[i]\<close> panics when there are fewer
  aggregates than fields.
\<close>

definition make_fieldNames :: "VariableName list \<Rightarrow> 's Aggregate list \<Rightarrow> VariableName list outcome" where
  "make_fieldNames fields' aggregates =
     (if length aggregates < length fields' then Panics (Some ''index out of range'')
      else Returns (map (\<lambda>i. NewVariableName
                           (VariableName_String (fields' ! i) @ ''_'' @ String (aggregates ! i)))
                     [0..<length fields']))"

text \<open>
  One pass through the loop body (lines 67-113): \<^verbatim>\<open>Inl\<close> is the stream at the start of
  the next pass. A source that returns neither a record nor an error makes
  \<^verbatim>\<open>record.AsVariables()\<close> a call on a nil pointer.
\<close>

definition loop_body ::
  "'vars externals \<Rightarrow> ('vars, 's) GroupByStream \<Rightarrow> ('vars, 's) GroupByStream + ('vars, 's) loop_exit" where
  "loop_body ext stream =
     (let (record, err) = shd (stream_source stream);
          stream = stream\<lparr>stream_source := stl (stream_source stream)\<rparr>
      in case err of
           Some err \<Rightarrow>
             (if err = ErrEndOfStream then
                (case make_fieldNames (stream_fields stream) (stream_aggregates stream) of
                   Panics p \<Rightarrow> Inr (Panic p)
                 | Returns fieldNames \<Rightarrow>
                     Inr (Break (stream\<lparr>stream_fieldNames := fieldNames,
                                        stream_iterator := Some (GetIterator (stream_groups stream))\<rparr>)))
              else Inr (Return (None, Some (Wrap ''couldn't get next source record'' err)) stream))
         | None \<Rightarrow>
             (case record of
                None \<Rightarrow> Inr (Panic (Some ''invalid memory address or nil pointer dereference''))
              | Some record \<Rightarrow>
                  (case MergeWith ext (stream_variables stream) (AsVariables ext record) of
                     Inl err \<Rightarrow>
                       Inr (Return (None, Some (Wrap ''couldn't merge stream variables with record'' err)) stream)
                   | Inr variables \<Rightarrow>
                       (case evaluate_key (stream_key stream) variables 0 of
                          Inl err \<Rightarrow> Inr (Return (None, Some err) stream)
                        | Inr key \<Rightarrow>
                            (let key = (if length key = 0 then key @ [EmptyStruct] else key)
                             in case Set_error ext key of
                                  Some err \<Rightarrow>
                                    Inr (Return (None, Some (Wrap ''couldn't put group key into hashmap'' err)) stream)
                                | None \<Rightarrow>
                                    (let stream = stream\<lparr>stream_groups :=
                                                     HashMap_Set (stream_groups stream) key EmptyStruct\<rparr>
                                     in case add_record (Value ext record) (stream_fields stream) key 0
                                               (stream_aggregates stream) of
                                          Panics p \<Rightarrow> Inr (Panic p)
                                        | Returns (aggregates, Some err) \<Rightarrow>
                                            Inr (Return (None, Some err)
                                                   (stream\<lparr>stream_aggregates := aggregates\<rparr>))
                                        | Returns (aggregates, None) \<Rightarrow>
                                            Inl (stream\<lparr>stream_aggregates := aggregates\<rparr>)))))))"

text \<open>
  The loop of lines 66-114. It ends only when the source returns an error, the end of
  the stream among them, or when a pass fails; on a source that goes on returning
  records for ever it does not end, and the result is \<^verbatim>\<open>None\<close>.
\<close>

partial_function (option) read_source ::
  "'vars externals \<Rightarrow> ('vars, 's) GroupByStream \<Rightarrow> ('vars, 's) loop_exit option" where
  "read_source ext stream =
     (case loop_body ext stream of
        Inl stream' \<Rightarrow> read_source ext stream'
      | Inr exit \<Rightarrow> Some exit)"

text \<open>Lines 123-130: the aggregates are read in turn, the first error ends the loop.\<close>

fun get_aggregated :: "'s Aggregate list \<Rightarrow> go_interface list \<Rightarrow> error + go_interface list" where
  "get_aggregated [] typedKey = Inr []"
| "get_aggregated (aggregate # rest) typedKey =
     (case GetAggregated aggregate (aggregate_state aggregate) typedKey of
        Inl err \<Rightarrow> Inl (Wrap ''couldn't get aggregate value'' err)
      | Inr v \<Rightarrow>
          (case get_aggregated rest typedKey of
             Inl err \<Rightarrow> Inl err
           | Inr vs \<Rightarrow> Inr (v # vs)))"

text \<open>
  Lines 117-132, with the iterator that \<^verbatim>\<open>stream.iterator\<close> points to. Line 132
  returns the record together with \<^verbatim>\<open>ErrEndOfStream\<close>.
\<close>

definition next_group ::
  "('vars, 's) GroupByStream \<Rightarrow> Iterator \<Rightarrow> (Record option \<times> error option) \<times> ('vars, 's) GroupByStream" where
  "next_group stream iterator =
     (case Iterator_Next iterator of
        None \<Rightarrow> ((None, Some ErrEndOfStream), stream)
      | Some (key, v, iterator') \<Rightarrow>
          (let stream = stream\<lparr>stream_iterator := Some iterator'\<rparr>
           in case get_aggregated (stream_aggregates stream) key of
                Inl err \<Rightarrow> ((None, Some err), stream)
              | Inr values \<Rightarrow>
                  ((Some (NewRecordFromSlice (stream_fieldNames stream) values), Some ErrEndOfStream),
                   stream)))"

text \<open>
  \<^verbatim>\<open>GroupByStream.Next\<close> (lines 64-133): the record and the error it returns, and the
  stream as the call leaves it; \<^verbatim>\<open>Panics\<close> when the call panics, \<^verbatim>\<open>None\<close> when it
  does not return.
\<close>

definition Next ::
  "'vars externals \<Rightarrow> ('vars, 's) GroupByStream \<Rightarrow>
   ((Record option \<times> error option) \<times> ('vars, 's) GroupByStream) outcome option" where
  "Next ext stream =
     (case stream_iterator stream of
        None \<Rightarrow>
          (case read_source ext stream of
             None \<Rightarrow> None
           | Some (Panic p) \<Rightarrow> Some (Panics p)
           | Some (Return result stream') \<Rightarrow> Some (Returns (result, stream'))
           | Some (Break stream') \<Rightarrow>
               (case stream_iterator stream' of
                  None \<Rightarrow> Some (Panics (Some ''invalid memory address or nil pointer dereference''))
                | Some iterator \<Rightarrow> Some (Returns (next_group stream' iterator))))
      | Some iterator \<Rightarrow> Some (Returns (next_group stream iterator)))"

section \<open>Calling a group-by stream\<close>


text \<open>
  The results of \<^verbatim>\<open>n\<close> calls of \<^verbatim>\<open>Next\<close> made one after the other on a stream by a
  consumer that calls on whatever comes back; \<^verbatim>\<open>None\<close> when one of the calls
  panics or does not return.
\<close>

fun calls ::
  "'vars externals \<Rightarrow> nat \<Rightarrow> ('vars, 's) GroupByStream \<Rightarrow> (Record option \<times> error option) list option" where
  "calls ext 0 stream = Some []"
| "calls ext (Suc n) stream =
     (case Next ext stream of
        Some (Returns (result, stream')) \<Rightarrow>
          (case calls ext n stream' of
             None \<Rightarrow> None
           | Some results \<Rightarrow> Some (result # results))
      | other \<Rightarrow> None)"

text \<open>The key under which a record is grouped (lines 99-101).\<close>

definition group_key :: "go_interface list \<Rightarrow> go_interface list" where
  "group_key key = (if length key = 0 then key @ [EmptyStruct] else key)"

text \<open>The distinct elements of a list, each at the place of its first occurrence.\<close>

fun first_occurrences :: "'a list \<Rightarrow> 'a list" where
  "first_occurrences [] = []"
| "first_occurrences (x # xs) = x # removeAll x (first_occurrences xs)"

text \<open>
  The names \<^verbatim>\<open>fmt.Sprintf("%s_%s", field, aggregate)\<close> for the fields with the
  aggregates at the same positions.
\<close>

definition field_names :: "VariableName list \<Rightarrow> 's Aggregate list \<Rightarrow> VariableName list" where
  "field_names fields' aggregates =
     map (\<lambda>(field, aggregate). NewVariableName (VariableName_String field @ ''_'' @ String aggregate))
       (zip fields' aggregates)"

text \<open>
  Two conditions on the methods of an aggregate, whatever its state: \<^verbatim>\<open>AddRecord\<close>
  never returns an error; and \<^verbatim>\<open>GetAggregated\<close> answers for a key once a record was
  added under it, and goes on answering for the keys it answered for before.
\<close>

definition never_fails :: "'s Aggregate \<Rightarrow> bool" where
  "never_fails a = (\<forall>st k v. snd (AddRecord a st k v) = None)"

definition answers :: "'s Aggregate \<Rightarrow> bool" where
  "answers a =
     (\<forall>st k v. (\<exists>x. GetAggregated a (fst (AddRecord a st k v)) k = Inr x) \<and>
        (\<forall>k' x. GetAggregated a st k' = Inr x \<longrightarrow>
                (\<exists>x'. GetAggregated a (fst (AddRecord a st k v)) k' = Inr x')))"


text \<open>
  A record is accepted by a stream when the variables merge, the key expressions
  evaluate to \<^verbatim>\<open>key\<close>, and the hashmap takes the key of the group.
\<close>

definition accepted ::
  "'vars externals \<Rightarrow> ('vars, 's) GroupByStream \<Rightarrow> Record \<Rightarrow> go_interface list \<Rightarrow> bool" where
  "accepted ext stream r key =
     (case MergeWith ext (stream_variables stream) (AsVariables ext r) of
        Inl err \<Rightarrow> False
      | Inr variables \<Rightarrow>
          evaluate_key (stream_key stream) variables 0 = Inr key \<and>
          Set_error ext (group_key key) = None)"

section \<open>Example streams\<close>











section \<open>Typecheck recovery\<close>




section \<open>The registry runs each plugin once\<close>

lemma accessor_done:
  "closure_once c \<Longrightarrow>
     accessor RunPlugin msg (c, k) =
       ((case closure_err c of Some e \<Rightarrow> (None, Some (Wrap msg e)) | None \<Rightarrow> (closure_db c, None)), (c, k))"
  by (simp add: accessor_def)

lemma invocations_done:
  "closure_once c \<Longrightarrow>
     invocations RunPlugin msg n (c, k) =
       (replicate n (case closure_err c of Some e \<Rightarrow> (None, Some (Wrap msg e)) | None \<Rightarrow> (closure_db c, None)), (c, k))"
  by (induction n) (simp_all add: accessor_done)

lemma accessor_fresh:
  "accessor RunPlugin msg (fresh_closure, k) =
     ((case snd (RunPlugin k) of Some e \<Rightarrow> (None, Some (Wrap msg e)) | None \<Rightarrow> (fst (RunPlugin k), None)),
      (\<lparr>closure_once = True, closure_db = fst (RunPlugin k), closure_err = snd (RunPlugin k)\<rparr>, Suc k))"
  by (simp add: accessor_def fresh_closure_def split: option.splits)

text \<open>
  C10: over any number of invocations of a registry closure that starts fresh, the
  plugin is run exactly once, on the first invocation (the executor's call count goes
  from \<^verbatim>\<open>k\<close> to \<^verbatim>\<open>k + 1\<close> and stays there); every invocation returns what the
  first one returned; when the first run failed with \<^verbatim>\<open>e\<close>, each invocation returns
  that error under the closure's message and no database, and when it succeeded each
  returns the database of that one run.
\<close>

theorem accessor_runs_plugin_once:
  "snd (snd (invocations RunPlugin msg (Suc n) (fresh_closure, k))) = Suc k \<and>
   fst (invocations RunPlugin msg (Suc n) (fresh_closure, k))
     = replicate (Suc n) (fst (accessor RunPlugin msg (fresh_closure, k))) \<and>
   (snd (RunPlugin k) = Some e \<longrightarrow>
      fst (invocations RunPlugin msg (Suc n) (fresh_closure, k))
        = replicate (Suc n) (None, Some (Wrap msg e))) \<and>
   (snd (RunPlugin k) = None \<longrightarrow>
      fst (invocations RunPlugin msg (Suc n) (fresh_closure, k))
        = replicate (Suc n) (fst (RunPlugin k), None))"
  by (simp add: accessor_fresh invocations_done split: option.splits)

theorem accessor_runs_plugin_once_witness:
  "fst (invocations (\<lambda>k. if k = 0 then (None, Some (New ''connection refused'')) else (Some (7::nat), None))
          ''couldn't run postgres plugin db'' (Suc (Suc (Suc 0))) (fresh_closure, 0))
     = [(None, Some (Wrap ''couldn't run postgres plugin db'' (New ''connection refused''))),
        (None, Some (Wrap ''couldn't run postgres plugin db'' (New ''connection refused''))),
        (None, Some (Wrap ''couldn't run postgres plugin db'' (New ''connection refused'')))] \<and>
   snd (snd (invocations (\<lambda>k. if k = 0 then (None, Some (New ''connection refused'')) else (Some (7::nat), None))
          ''couldn't run postgres plugin db'' (Suc (Suc (Suc 0))) (fresh_closure, 0))) = Suc 0"
proof -
  let ?R = "\<lambda>k::nat. if k = 0 then (None, Some (New ''connection refused'')) else (Some (7::nat), None)"
  let ?msg = "''couldn't run postgres plugin db''"
  have failed: "snd (?R 0) = Some (New ''connection refused'')"
    by simp
  from accessor_runs_plugin_once [of ?R ?msg "Suc (Suc 0)" 0 "New ''connection refused''"] failed
  have "snd (snd (invocations ?R ?msg (Suc (Suc (Suc 0))) (fresh_closure, 0))) = Suc 0 \<and>
        fst (invocations ?R ?msg (Suc (Suc (Suc 0))) (fresh_closure, 0))
          = replicate (Suc (Suc (Suc 0))) (None, Some (Wrap ?msg (New ''connection refused'')))"
    by blast
  then show ?thesis
    by (simp del: invocations.simps)
qed

section \<open>LIMIT and the choice of the sink\<close>

lemma Schema_of_push_OrderBy_Limit:
  "Schema_of (fst (push_OrderBy_Limit tm plan obs opts)) = Schema_of plan"
  by (simp add: push_OrderBy_Limit_def Let_def)

lemma push_OrderBy_Limit_retractions:
  "\<not> NoRetractions (Schema_of plan) \<Longrightarrow> push_OrderBy_Limit tm plan obs opts = (plan, obs, opts)"
  by (simp add: push_OrderBy_Limit_def)

lemma push_OrderBy_Limit_no_retractions:
  "NoRetractions (Schema_of plan) \<Longrightarrow>
     push_OrderBy_Limit tm plan obs opts =
       (NodeTypeLimit (Schema_of plan)
          (if obs = [] then plan
           else NodeTypeOrderBy (Schema_of plan) plan obs (tm (OrderByDirections opts)))
          (ExpressionTypeConstant octosql_Int (NewInt (Limit opts))),
        [], opts\<lparr>Limit := 0\<rparr>)"
  by (simp add: push_OrderBy_Limit_def)

text \<open>
  C8, as stated: every \<^verbatim>\<open>stream_native\<close> query that carries a LIMIT clause is rejected
  with "LIMIT clause not supported with stream output". It fails on the example run:
  the schema has \<^verbatim>\<open>NoRetractions\<close>, so lines 277-293 move the limit into the plan and
  reset \<^verbatim>\<open>outputOptions.Limit\<close> to 0; the test of line 451 then sees 0, the stream
  sink is selected over the plan \<^verbatim>\<open>Limit(t, 5)\<close>, and \<^verbatim>\<open>RunE\<close> returns nil.
\<close>

theorem stream_native_limit_counterexample:
  "RunE_stage plain_collaborators stream_native_flags id table_t []
       \<lparr>Limit = 5, OrderByDirections = []\<rparr>
     = Selected (stream_NewOutputPrinter
         (Materialized (NodeTypeLimit \<lparr>Fields = [], TimeField = - 1, NoRetractions = True\<rparr> table_t
            (ExpressionTypeConstant octosql_Int (NewInt 5))))
         (NewNativeFormat \<lparr>Fields = [], TimeField = - 1, NoRetractions = False\<rparr>)) \<and>
   RunE plain_collaborators stream_native_flags id table_t []
       \<lparr>Limit = 5, OrderByDirections = []\<rparr> = None"
  by (simp add: RunE_def RunE_stage_def push_OrderBy_Limit_def prepare_execution_def
      select_sink_def table_t_def stream_native_flags_def plain_collaborators_def rename_fields_def)

text \<open>
  C8, amended: a \<^verbatim>\<open>stream_native\<close> query with a LIMIT (\<^verbatim>\<open>outputOptions.Limit > 0\<close>)
  over a plan whose schema allows retractions, run without \<^verbatim>\<open>--describe\<close>, is never
  executed: no sink is selected, and once the plan and the order-by expressions have
  materialised (and no explain graph was asked for) \<^verbatim>\<open>RunE\<close> returns the error
  "LIMIT clause not supported with stream output". (With \<^verbatim>\<open>NoRetractions\<close> the limit
  becomes a \<^verbatim>\<open>Limit\<close> node of the plan, see
  \<^verbatim>\<open>push_OrderBy_Limit_no_retractions\<close>, and the query runs.)
\<close>

theorem stream_native_limit_rejected:
  assumes "output_flag fl = ''stream_native''"
    and "Limit opts > 0"
    and "\<not> describe fl"
    and "\<not> NoRetractions (Schema_of plan)"
  shows "(\<forall>sink. RunE_stage c fl rm plan obs opts \<noteq> Selected sink) \<and>
         (explain fl < 1 \<longrightarrow>
          (\<exists>x. Materialize c (if optimize fl then Optimize c plan else plan) = Inr x) \<longrightarrow>
          (\<exists>xs. materialize_orderBy
                   (Materialize_expr c (Schema_of (if optimize fl then Optimize c plan else plan))) 0 obs
                 = Inr xs) \<longrightarrow>
          RunE_stage c fl rm plan obs opts
            = Failed (New ''LIMIT clause not supported with stream output'') \<and>
          RunE c fl rm plan obs opts
            = Some (New ''LIMIT clause not supported with stream output''))"
  using assms
  by (auto simp add: RunE_def RunE_stage_def push_OrderBy_Limit_retractions prepare_execution_def
      select_sink_def Let_def split: sum.splits option.splits)

theorem stream_native_limit_rejected_witness:
  "RunE_stage plain_collaborators stream_native_flags id table_updates []
       \<lparr>Limit = 5, OrderByDirections = []\<rparr>
     = Failed (New ''LIMIT clause not supported with stream output'') \<and>
   RunE plain_collaborators stream_native_flags id table_updates []
       \<lparr>Limit = 5, OrderByDirections = []\<rparr>
     = Some (New ''LIMIT clause not supported with stream output'')"
proof -
  let ?opts = "\<lparr>Limit = 5, OrderByDirections = []\<rparr> :: int outputOptions"
  have a: "output_flag stream_native_flags = ''stream_native''"
    and b: "Limit ?opts > 0"
    and c: "\<not> describe stream_native_flags"
    and d: "\<not> NoRetractions (Schema_of table_updates)"
    and e: "explain stream_native_flags < 1"
    by (simp_all add: stream_native_flags_def table_updates_def)
  have f: "\<exists>x. Materialize plain_collaborators
             (if optimize stream_native_flags then Optimize plain_collaborators table_updates
              else table_updates) = Inr x"
    by (simp add: plain_collaborators_def)
  have g: "\<exists>xs. materialize_orderBy
             (Materialize_expr plain_collaborators
                (Schema_of (if optimize stream_native_flags
                            then Optimize plain_collaborators table_updates else table_updates)))
             0 [] = Inr xs"
    by simp
  from stream_native_limit_rejected [OF a b c d, of plain_collaborators id "[]"] e f g
  show ?thesis
    by blast
qed

lemma select_sink_csv_json:
  "out = ''csv'' \<or> out = ''json'' \<Longrightarrow>
     eager_selected (select_sink tm out s e ob os op) = NoRetractions s \<and>
     batch_selected (select_sink tm out s e ob os op) = (\<not> NoRetractions s)"
  by (auto simp add: select_sink_def)

text \<open>
  C9: for the outputs \<^verbatim>\<open>csv\<close> and \<^verbatim>\<open>json\<close>, the switch selects the eager printer
  exactly when \<^verbatim>\<open>physicalPlan.Schema\<close> has \<^verbatim>\<open>NoRetractions\<close> and the batch printer
  exactly when it has not, whatever the execution plan, the ordering and the options
  are. For a whole run that reaches the switch, \<^verbatim>\<open>physicalPlan\<close> is the typechecked
  plan under the nodes of lines 265-293, which keep its schema, after the optimizer
  when that ran; so the eager printer is only ever built over a plan whose schema has
  \<^verbatim>\<open>NoRetractions\<close>.
\<close>

theorem eager_sink_iff_NoRetractions:
  assumes "out = ''csv'' \<or> out = ''json''"
  shows "eager_selected (select_sink tm out schema executionPlan orderBy outSchema opts)
           = NoRetractions schema \<and>
         batch_selected (select_sink tm out schema executionPlan orderBy outSchema opts)
           = (\<not> NoRetractions schema) \<and>
         (output_flag fl = out \<longrightarrow> RunE_stage c fl rm plan obs popts = Selected sink \<longrightarrow>
            eager_selected (Selected sink)
              = NoRetractions (Schema_of
                  (if describe fl \<or> \<not> optimize fl then plan
                   else Optimize c (fst (push_OrderBy_Limit (DirectionsToMultipliers c) plan obs popts)))) \<and>
            batch_selected (Selected sink) = (\<not> eager_selected (Selected sink)))"
proof -
  note sel = select_sink_csv_json [OF assms]
  have run: "eager_selected (Selected sink)
               = NoRetractions (Schema_of
                   (if describe fl \<or> \<not> optimize fl then plan
                    else Optimize c (fst (push_OrderBy_Limit (DirectionsToMultipliers c) plan obs popts)))) \<and>
             batch_selected (Selected sink) = (\<not> eager_selected (Selected sink))"
    if o: "output_flag fl = out" and r: "RunE_stage c fl rm plan obs popts = Selected sink"
  proof -
    obtain p ob op where push:
      "push_OrderBy_Limit (DirectionsToMultipliers c) plan obs popts = (p, ob, op)"
      by (cases "push_OrderBy_Limit (DirectionsToMultipliers c) plan obs popts") auto
    have sp: "Schema_of p = Schema_of plan"
      using Schema_of_push_OrderBy_Limit [of "DirectionsToMultipliers c" plan obs popts] push
      by simp
    from r push o obtain s e xs os op' where
      prep: "prepare_execution c fl rm p ob op = Inr (s, e, xs, os, op')" and
      sink: "select_sink (DirectionsToMultipliers c) out s e xs os op' = Selected sink"
      by (auto simp add: RunE_stage_def split: sum.splits option.splits)
    from prep have s: "NoRetractions s
        = NoRetractions (Schema_of (if describe fl \<or> \<not> optimize fl then plan else Optimize c p))"
      using sp
      by (auto simp add: prepare_execution_def Let_def split: if_splits sum.splits)
    from sel [of "DirectionsToMultipliers c" s e xs os op'] sink s push
    show ?thesis
      by auto
  qed
  from sel [of tm schema executionPlan orderBy outSchema opts] run
  show ?thesis
    by blast
qed

theorem eager_sink_iff_NoRetractions_witness:
  "eager_selected (select_sink id ''csv'' (Schema_of table_t) (Materialized table_t) [] (Schema_of table_t)
       \<lparr>Limit = 0, OrderByDirections = []\<rparr>) \<and>
   batch_selected (select_sink id ''csv'' (Schema_of table_updates) (Materialized table_updates) []
       (Schema_of table_updates) \<lparr>Limit = 0, OrderByDirections = []\<rparr>)"
proof -
  have a: "''csv'' = ''csv'' \<or> ''csv'' = ''json''"
    by simp
  have "NoRetractions (Schema_of table_t)" and "\<not> NoRetractions (Schema_of table_updates)"
    by (simp_all add: table_t_def table_updates_def)
  with eager_sink_iff_NoRetractions [OF a, of id "Schema_of table_t" "Materialized table_t" "[]"
        "Schema_of table_t" "\<lparr>Limit = 0, OrderByDirections = []\<rparr>"]
      eager_sink_iff_NoRetractions [OF a, of id "Schema_of table_updates" "Materialized table_updates" "[]"
        "Schema_of table_updates" "\<lparr>Limit = 0, OrderByDirections = []\<rparr>"]
  show ?thesis
    by blast
qed

section \<open>Reading the source of a group-by stream\<close>

subsection \<open>The hashmap\<close>

lemma HashMap_Set_keys:
  "map fst (HashMap_Set hm k v) = (if k \<in> set (map fst hm) then map fst hm else map fst hm @ [k])"
  by (induction hm k v rule: HashMap_Set.induct) auto

lemma first_occurrences_set [simp]: "set (first_occurrences xs) = set xs"
  by (induction xs) auto

lemma first_occurrences_snoc:
  "first_occurrences (xs @ [k]) =
     (if k \<in> set xs then first_occurrences xs else first_occurrences xs @ [k])"
  by (induction xs) auto

lemma first_occurrences_distinct: "distinct (first_occurrences xs)"
  by (induction xs) (auto simp add: distinct_removeAll)

subsection \<open>The aggregates\<close>



lemma add_record_never_fails:
  "\<forall>a\<in>set as. never_fails a \<Longrightarrow> i + length as \<le> length fs \<Longrightarrow>
     \<exists>as'. add_record rv fs key i as = Returns (as', None)"
proof (induction as arbitrary: i)
  case Nil
  then show ?case by simp
next
  case (Cons a as)
  from Cons.prems have nf: "snd (AddRecord a (aggregate_state a) key (rv (fs ! i))) = None"
    by (simp add: never_fails_def)
  from Cons.prems have "\<exists>as'. add_record rv fs key (Suc i) as = Returns (as', None)"
    by (intro Cons.IH) auto
  with nf Cons.prems show ?case
    by (auto split: prod.splits)
qed

text \<open>
  What a pass that gave every aggregate a record under \<^verbatim>\<open>key\<close> keeps: the methods,
  and with them the two conditions; and the aggregates answer for \<^verbatim>\<open>key\<close> and for
  every key they answered for.
\<close>

lemma added_never_fails:
  assumes "list_all2 (\<lambda>a a'. \<exists>v. a' = a\<lparr>aggregate_state := fst (AddRecord a (aggregate_state a) key v)\<rparr>) as as'"
    and "\<forall>a\<in>set as. never_fails a \<and> answers a"
  shows "\<forall>a\<in>set as'. never_fails a \<and> answers a"
proof -
  have one: "never_fails (a\<lparr>aggregate_state := s\<rparr>) = never_fails a"
    "answers (a\<lparr>aggregate_state := s\<rparr>) = answers a" for a :: "'a Aggregate" and s
    by (simp_all add: never_fails_def answers_def)
  from assms show ?thesis
    by (induction rule: list_all2_induct) (auto simp add: one)
qed

lemma added_answers:
  assumes "list_all2 (\<lambda>a a'. \<exists>v. a' = a\<lparr>aggregate_state := fst (AddRecord a (aggregate_state a) key v)\<rparr>) as as'"
    and "\<forall>a\<in>set as. answers a"
    and "\<forall>k\<in>ks. \<forall>a\<in>set as. \<exists>x. GetAggregated a (aggregate_state a) k = Inr x"
  shows "\<forall>k\<in>insert key ks. \<forall>a\<in>set as'. \<exists>x. GetAggregated a (aggregate_state a) k = Inr x"
  using assms
proof (induction rule: list_all2_induct)
  case Nil
  then show ?case by simp
next
  case (Cons a as a' as')
  from Cons.hyps obtain v where
    a': "a' = a\<lparr>aggregate_state := fst (AddRecord a (aggregate_state a) key v)\<rparr>"
    by auto
  from Cons.prems have ans: "answers a"
    by simp
  have here: "\<exists>x. GetAggregated a' (aggregate_state a') k = Inr x" if "k \<in> insert key ks" for k
  proof (cases "k = key")
    case True
    with ans a' show ?thesis
      by (simp add: answers_def)
  next
    case False
    with that Cons.prems obtain x where x: "GetAggregated a (aggregate_state a) k = Inr x"
      by auto
    from ans have "GetAggregated a (aggregate_state a) k = Inr x \<longrightarrow>
        (\<exists>x'. GetAggregated a (fst (AddRecord a (aggregate_state a) key v)) k = Inr x')"
      unfolding answers_def by blast
    with x a' show ?thesis
      by simp
  qed
  from Cons.prems have "\<forall>k\<in>insert key ks. \<forall>a\<in>set as'. \<exists>x. GetAggregated a (aggregate_state a) k = Inr x"
    by (intro Cons.IH) auto
  with here show ?case
    by auto
qed

lemma added_length_String:
  assumes "list_all2 (\<lambda>a a'. \<exists>v. a' = a\<lparr>aggregate_state := fst (AddRecord a (aggregate_state a) key v)\<rparr>) as as'"
  shows "length as' = length as \<and> map String as' = map String as"
  using assms
  by (induction rule: list_all2_induct) auto

lemma get_aggregated_answers:
  "\<forall>a\<in>set as. \<exists>x. GetAggregated a (aggregate_state a) k = Inr x \<Longrightarrow>
     \<exists>vs. get_aggregated as k = Inr vs \<and> length vs = length as"
  by (induction as) auto

subsection \<open>The field names\<close>

lemma field_names_map_String:
  "field_names fs as = map (\<lambda>(f, n). NewVariableName (VariableName_String f @ ''_'' @ n))
     (zip fs (map String as))"
  by (simp add: field_names_def zip_map2 case_prod_unfold)

lemma field_names_String:
  "map String as' = map String as \<Longrightarrow> field_names fs as' = field_names fs as"
  by (simp only: field_names_map_String)


lemma field_names_nth:
  "length fs \<le> length as \<Longrightarrow>
     length (field_names fs as) = length fs \<and>
     (\<forall>i<length fs. field_names fs as ! i
        = NewVariableName (VariableName_String (fs ! i) @ ''_'' @ String (as ! i)))"
  by (simp add: field_names_def)

subsection \<open>The loop\<close>


lemma loop_body_accepted:
  assumes "shd (stream_source s) = (Some r, None)"
    and "accepted ext s r key"
    and "add_record (Value ext r) (stream_fields s) (group_key key) 0 (stream_aggregates s)
           = Returns (as', None)"
  shows "loop_body ext s =
           Inl (s\<lparr>stream_source := stl (stream_source s),
                  stream_groups := HashMap_Set (stream_groups s) (group_key key) EmptyStruct,
                  stream_aggregates := as'\<rparr>)"
  using assms
  by (auto simp add: loop_body_def Let_def accepted_def group_key_def
      split: prod.splits option.splits if_splits outcome.splits sum.splits)







subsection \<open>A call of Next\<close>








section \<open>The results of a group-by stream\<close>













end
